theory Spec2Isabelle
  imports Complex_Main "HOL-Library.Sublist"
begin

section \<open>Values, exceptions and effects of \<open>app.py\<close>\<close>

text \<open>
  \<open>json.loads\<close> yields Python values: \<open>None\<close>, booleans, integers, floats, strings,
  lists and dictionaries. \<open>JNull\<close> is Python's \<open>None\<close>, which is also what
  \<open>extract_user_info\<close> returns when it gives up. A dictionary is an association list
  read with \<open>map_of\<close>. Strings are sequences of bytes (UTF-8 text).
\<close>

datatype pyfloat = Finite rat | Infinity bool | NaN

datatype json =
    JNull
  | JBool bool
  | JInt int
  | JFloat pyfloat
  | JStr string
  | JArr "json list"
  | JObj "(string \<times> json) list"

text \<open>The exceptions that occur; all of them are subclasses of \<open>Exception\<close>.\<close>

datatype exn =
    KeyError string
  | AttributeError string
  | TypeError string
  | JSONDecodeError string
  | Error string

datatype role = User | Assistant

record message =
  role :: role
  content :: string

text \<open>A \<open>pandas.DataFrame\<close>: its column labels and its rows.\<close>

record dataframe =
  columns :: "string list"
  rows :: "json list list"

text \<open>
  What a run does to the outside: requests to the model, reads of the sheet, what the
  page shows, and the entry into each helper function (the call trace).
\<close>

datatype event =
    ModelRequest string
  | SheetRead string
  | UiError string
  | UiChat role string
  | Invoke string

text \<open>
  The state that survives a run of the script: \<open>st.session_state.messages\<close>
  (\<open>None\<close> while the key is absent), the slot of \<open>@st.cache_data\<close> for
  \<open>load_data\<close>, and the effects performed so far, oldest first.
\<close>

record world =
  messages :: "message list option"
  cache :: "dataframe option"
  trace :: "event list"

record datetime =
  hour :: nat
  minute :: nat
  weekday :: nat

text \<open>
  The surroundings of one run: the secrets, and what the libraries answer during the run.
  \<open>generate_content\<close> stands for \<open>model.generate_content(prompt)\<close> followed by
  \<open>response.text\<close>; \<open>format_other\<close> is \<open>str()\<close> on floats, lists and dictionaries.
\<close>

record env =
  secrets :: "string \<Rightarrow> string option"
  read_csv :: "string \<Rightarrow> exn + dataframe"
  generate_content :: "string \<Rightarrow> exn + string"
  json_loads :: "string \<Rightarrow> exn + json"
  to_json :: "dataframe \<Rightarrow> exn + string"
  format_other :: "json \<Rightarrow> string"
  now_ist :: datetime

type_synonym 'a prog = "world \<Rightarrow> (exn + 'a) \<times> world"

definition ret :: "'a \<Rightarrow> 'a prog" where
  "ret x w = (Inr x, w)"

definition raise :: "exn \<Rightarrow> 'a prog" where
  "raise e w = (Inl e, w)"

definition lift :: "exn + 'a \<Rightarrow> 'a prog" where
  "lift r w = (r, w)"

definition and_then :: "'a prog \<Rightarrow> ('a \<Rightarrow> 'b prog) \<Rightarrow> 'b prog" where
  "and_then m f w = (case m w of (Inl e, w') \<Rightarrow> (Inl e, w') | (Inr x, w') \<Rightarrow> f x w')"

text \<open>\<open>try: m except Exception as e: h e\<close>\<close>

definition try_except :: "'a prog \<Rightarrow> (exn \<Rightarrow> 'a prog) \<Rightarrow> 'a prog" where
  "try_except m h w = (case m w of (Inl e, w') \<Rightarrow> h e w' | (Inr x, w') \<Rightarrow> (Inr x, w'))"

definition emit :: "event \<Rightarrow> unit prog" where
  "emit e w = (Inr (), w\<lparr>trace := trace w @ [e]\<rparr>)"

section \<open>Python built-ins used by the script\<close>

definition nl :: string where
  "nl = [CHR 0x0A]"

definition lines_nl :: "string list \<Rightarrow> string" where
  "lines_nl ls = concat (map (\<lambda>l. l @ nl) ls)"

definition quote :: string where
  "quote = [CHR 0x27]"

definition rupee :: string where
  "rupee = [CHR 0xE2, CHR 0x82, CHR 0xB9]"

definition collision :: string where
  "collision = [CHR 0xF0, CHR 0x9F, CHR 0x92, CHR 0xA5]"

fun truthy :: "json \<Rightarrow> bool" where
  "truthy JNull = False"
| "truthy (JBool b) = b"
| "truthy (JInt i) = (i \<noteq> 0)"
| "truthy (JFloat (Finite r)) = (r \<noteq> 0)"
| "truthy (JFloat (Infinity s)) = True"
| "truthy (JFloat NaN) = True"
| "truthy (JStr s) = (s \<noteq> [])"
| "truthy (JArr xs) = (xs \<noteq> [])"
| "truthy (JObj kvs) = (kvs \<noteq> [])"

fun type_name :: "json \<Rightarrow> string" where
  "type_name JNull = ''NoneType''"
| "type_name (JBool b) = ''bool''"
| "type_name (JInt i) = ''int''"
| "type_name (JFloat f) = ''float''"
| "type_name (JStr s) = ''str''"
| "type_name (JArr xs) = ''list''"
| "type_name (JObj kvs) = ''dict''"

fun exn_str :: "exn \<Rightarrow> string" where
  "exn_str (KeyError k) = quote @ k @ quote"
| "exn_str (AttributeError m) = m"
| "exn_str (TypeError m) = m"
| "exn_str (JSONDecodeError m) = m"
| "exn_str (Error m) = m"

definition no_attribute :: "json \<Rightarrow> string \<Rightarrow> exn" where
  "no_attribute v a =
     AttributeError (quote @ type_name v @ quote @ '' object has no attribute '' @ quote @ a @ quote)"

text \<open>
  The characters for which \<open>str.isspace\<close> holds, which are the ones \<open>strip()\<close> removes,
  each as the bytes of its UTF-8 encoding: the ASCII ones (tab to carriage return, file
  separator to unit separator, space), then U+0085, U+00A0, U+1680, U+2000 to U+200A,
  U+2028, U+2029, U+202F, U+205F and U+3000.
\<close>

definition whitespace :: "string list" where
  "whitespace =
     [[CHR 0x09], [CHR 0x0A], [CHR 0x0B], [CHR 0x0C], [CHR 0x0D],
      [CHR 0x1C], [CHR 0x1D], [CHR 0x1E], [CHR 0x1F], [CHR 0x20],
      [CHR 0xC2, CHR 0x85], [CHR 0xC2, CHR 0xA0],
      [CHR 0xE1, CHR 0x9A, CHR 0x80],
      [CHR 0xE2, CHR 0x80, CHR 0x80], [CHR 0xE2, CHR 0x80, CHR 0x81],
      [CHR 0xE2, CHR 0x80, CHR 0x82], [CHR 0xE2, CHR 0x80, CHR 0x83],
      [CHR 0xE2, CHR 0x80, CHR 0x84], [CHR 0xE2, CHR 0x80, CHR 0x85],
      [CHR 0xE2, CHR 0x80, CHR 0x86], [CHR 0xE2, CHR 0x80, CHR 0x87],
      [CHR 0xE2, CHR 0x80, CHR 0x88], [CHR 0xE2, CHR 0x80, CHR 0x89],
      [CHR 0xE2, CHR 0x80, CHR 0x8A],
      [CHR 0xE2, CHR 0x80, CHR 0xA8], [CHR 0xE2, CHR 0x80, CHR 0xA9],
      [CHR 0xE2, CHR 0x80, CHR 0xAF],
      [CHR 0xE2, CHR 0x81, CHR 0x9F],
      [CHR 0xE3, CHR 0x80, CHR 0x80]]"

text \<open>
  The number of bytes of the white space character a string starts with, or ends with;
  0 when there is none. In UTF-8 no encoding of a character occurs inside or at the end
  of the encoding of another one, so the bytes at either end of a text are those of a
  white space character exactly when its first or last character is one.
\<close>

definition leading_space :: "string \<Rightarrow> nat" where
  "leading_space s = (case find (\<lambda>p. prefix p s) whitespace of None \<Rightarrow> 0 | Some p \<Rightarrow> length p)"

definition trailing_space :: "string \<Rightarrow> nat" where
  "trailing_space s = (case find (\<lambda>p. suffix p s) whitespace of None \<Rightarrow> 0 | Some p \<Rightarrow> length p)"

function lstrip :: "string \<Rightarrow> string" where
  "lstrip [] = []"
| "lstrip (c # cs) =
     (if leading_space (c # cs) = 0 then c # cs
      else lstrip (drop (leading_space (c # cs)) (c # cs)))"
  by pat_completeness auto
termination
  by (relation "measure length") auto

function rstrip :: "string \<Rightarrow> string" where
  "rstrip [] = []"
| "rstrip (c # cs) =
     (if trailing_space (c # cs) = 0 then c # cs
      else rstrip (take (length (c # cs) - trailing_space (c # cs)) (c # cs)))"
  by pat_completeness auto
termination
  by (relation "measure length") auto

text \<open>
  \<open>s.strip()\<close> is \<open>s[i:j]\<close>, where \<open>i\<close> is the index behind the leading white
  space and \<open>j\<close> the one before the trailing white space.
\<close>

definition strip :: "string \<Rightarrow> string" where
  "strip s = rstrip (lstrip s)"

text \<open>
  \<open>s.replace(old, "")\<close>: one scan from the left, each occurrence of \<open>old\<close> found is
  skipped and the scan goes on behind it. (With an empty \<open>old\<close> nothing is removed.)
\<close>

function str_remove :: "string \<Rightarrow> string \<Rightarrow> string" where
  "str_remove old [] = []"
| "str_remove old (c # cs) =
     (if old \<noteq> [] \<and> prefix old (c # cs)
      then str_remove old (drop (length old) (c # cs))
      else c # str_remove old cs)"
  by pat_completeness auto
termination
  by (relation "measure (\<lambda>(old, s). length s)") auto

definition lower_char :: "char \<Rightarrow> char" where
  "lower_char c =
     (case map_of (zip ''ABCDEFGHIJKLMNOPQRSTUVWXYZ'' ''abcdefghijklmnopqrstuvwxyz'') c of
        None \<Rightarrow> c | Some d \<Rightarrow> d)"

text \<open>
  \<open>craving.lower()\<close>: only a string has the method. The result is only ever compared
  with \<open>'anything'\<close>, and no character outside ASCII lowers to an ASCII letter of that
  word, so lowering the ASCII letters decides the comparison as Python does.
\<close>

definition py_lower :: "json \<Rightarrow> string prog" where
  "py_lower v = (case v of JStr s \<Rightarrow> ret (map lower_char s) | _ \<Rightarrow> raise (no_attribute v ''lower''))"

text \<open>\<open>d.get(key)\<close> and \<open>d[key]\<close>\<close>

definition dict_get :: "json \<Rightarrow> string \<Rightarrow> json prog" where
  "dict_get d k =
     (case d of
        JObj kvs \<Rightarrow> ret (case map_of kvs k of None \<Rightarrow> JNull | Some v \<Rightarrow> v)
      | _ \<Rightarrow> raise (no_attribute d ''get''))"

definition subscript :: "json \<Rightarrow> string \<Rightarrow> json prog" where
  "subscript d k =
     (case d of
        JObj kvs \<Rightarrow> (case map_of kvs k of None \<Rightarrow> raise (KeyError k) | Some v \<Rightarrow> ret v)
      | JStr s \<Rightarrow> raise (TypeError ''string indices must be integers'')
      | JArr xs \<Rightarrow> raise (TypeError ''list indices must be integers or slices, not str'')
      | _ \<Rightarrow> raise (TypeError (quote @ type_name d @ quote @ '' object is not subscriptable'')))"

fun digits :: "nat \<Rightarrow> string" where
  "digits n =
     (if n < 10 then [''0123456789'' ! n]
      else digits (n div 10) @ [''0123456789'' ! (n mod 10)])"

declare digits.simps [simp del]

definition show_int :: "int \<Rightarrow> string" where
  "show_int i = (if i < 0 then ''-'' @ digits (nat (- i)) else digits (nat i))"

text \<open>What an f-string puts in place of \<open>{v}\<close>.\<close>

fun format_value :: "env \<Rightarrow> json \<Rightarrow> string" where
  "format_value env (JStr s) = s"
| "format_value env JNull = ''None''"
| "format_value env (JBool b) = (if b then ''True'' else ''False'')"
| "format_value env (JInt i) = show_int i"
| "format_value env v = format_other env v"

section \<open>The helper functions\<close>

definition lookup_secret :: "env \<Rightarrow> string \<Rightarrow> string prog" where
  "lookup_secret env k = (case secrets env k of None \<Rightarrow> raise (KeyError k) | Some v \<Rightarrow> ret v)"

definition pd_read_csv :: "env \<Rightarrow> string \<Rightarrow> dataframe prog" where
  "pd_read_csv env url = and_then (emit (SheetRead url)) (\<lambda>_. lift (read_csv env url))"

definition model_generate :: "env \<Rightarrow> string \<Rightarrow> string prog" where
  "model_generate env prompt =
     and_then (emit (ModelRequest prompt)) (\<lambda>_. lift (generate_content env prompt))"

text \<open>\<open>pd.DataFrame()\<close> and \<open>DataFrame.empty\<close> (some axis has length 0).\<close>

definition DataFrame_new :: dataframe where
  "DataFrame_new = \<lparr>columns = [], rows = []\<rparr>"

definition df_empty :: "dataframe \<Rightarrow> bool" where
  "df_empty df \<longleftrightarrow> columns df = [] \<or> rows df = []"

definition load_error_message :: "exn \<Rightarrow> string" where
  "load_error_message e =
     collision @ '' Oops! Having trouble reading the food database. Please check the Google Sheet URL. Error: ''
       @ exn_str e"

text \<open>The body of \<open>load_data\<close> (lines 65 to 71).\<close>

definition load_data_body :: "env \<Rightarrow> dataframe prog" where
  "load_data_body env =
     try_except
       (and_then (lookup_secret env ''SHEET_URL'') (\<lambda>sheet_url.
        and_then (pd_read_csv env sheet_url) (\<lambda>df.
        ret df)))
       (\<lambda>e. and_then (emit (UiError (load_error_message e))) (\<lambda>_.
            ret DataFrame_new))"

text \<open>
  \<open>load_data\<close> under \<open>@st.cache_data\<close>: the body runs while the slot is empty and its
  return value fills the slot; afterwards the stored table is returned.
\<close>

definition load_data :: "env \<Rightarrow> dataframe prog" where
  "load_data env =
     and_then (emit (Invoke ''load_data'')) (\<lambda>_ w.
       case cache w of
         Some df \<Rightarrow> (Inr df, w)
       | None \<Rightarrow>
           (case load_data_body env w of
              (Inr df, w') \<Rightarrow> (Inr df, w'\<lparr>cache := Some df\<rparr>)
            | (Inl e, w') \<Rightarrow> (Inl e, w')))"

definition extract_prompt :: "string \<Rightarrow> string" where
  "extract_prompt user_message =
     nl @ lines_nl
       [''    Extract location, budget (in INR), and food craving from the user''
          @ quote @ ''s message.'',
        ''    Respond ONLY with a valid JSON object like {\"location\": \"...\", \"budget\": ..., \"craving\": \"...\"}.'',
        [],
        ''    RULES:'',
        ''    - The '' @ quote @ ''location'' @ quote
          @ '' is mandatory. If you cannot find a location, set its value to null.'',
        ''    - **If the user does not mention a '' @ quote @ ''budget'' @ quote
          @ '', assume it is 100 INR.**'',
        ''    - **If the user does not mention a specific '' @ quote @ ''craving'' @ quote
          @ '', set the craving to \"anything\".**'',
        [],
        ''    USER MESSAGE: \"'' @ user_message @ ''\"'']
     @ ''    ''"

definition clean_reply :: "string \<Rightarrow> string" where
  "clean_reply text = strip (str_remove ''```'' (str_remove ''```json'' (strip text)))"

definition extract_error_message :: "exn \<Rightarrow> string" where
  "extract_error_message e =
     ''Sorry, I had trouble understanding that. Could you be a bit more specific? (Error: ''
       @ exn_str e @ '')''"

definition extract_user_info :: "env \<Rightarrow> string \<Rightarrow> json prog" where
  "extract_user_info env user_message =
     and_then (emit (Invoke ''extract_user_info'')) (\<lambda>_.
     try_except
       (and_then (model_generate env (extract_prompt user_message)) (\<lambda>text.
        lift (json_loads env (clean_reply text))))
       (\<lambda>e. and_then (emit (UiError (extract_error_message e))) (\<lambda>_.
            ret JNull)))"

definition unavailable_message :: string where
  "unavailable_message = ''Sorry, the food database is currently unavailable.''"

definition popular_instruction :: string where
  "popular_instruction =
     ''The user is open to anything, so recommend your most popular, iconic, or must-try dishes suitable for the location and time.''"

definition mood_instruction :: "string \<Rightarrow> string" where
  "mood_instruction craving = ''The user is in the mood for '' @ quote @ craving @ quote @ ''.''"

definition recommendation_prompt ::
  "string \<Rightarrow> string \<Rightarrow> string \<Rightarrow> string \<Rightarrow> string \<Rightarrow> string" where
  "recommendation_prompt location budget current_time_str craving_instruction database_json =
     nl @ lines_nl
       [''    You are '' @ quote @ ''Food Dost,'' @ quote
          @ '' a local Mumbaikar friend who knows all the best khau gallis. '',
        ''    Your tone should be friendly, casual, and use some Hinglish or Mumbai slang (like ''
          @ quote @ ''boss'' @ quote @ '', '' @ quote @ ''mast'' @ quote @ '', ''
          @ quote @ ''ekdum'' @ quote @ '', '' @ quote @ ''paisa vasool'' @ quote @ '').'',
        ''    Keep your answers short because the user is hungry.'',
        [],
        ''    A user is near '' @ quote @ location @ quote @ '' with a budget of ''
          @ rupee @ budget @ ''.'',
        ''    It is currently '' @ current_time_str @ '' in Mumbai.'',
        ''    '' @ craving_instruction
          @ ''. Use this time context to make your recommendations more relevant (e.g., suggest breakfast in the morning, dinner spots in the evening, or late-night snacks after 10 PM).'',
        [],
        ''    From the JSON DATABASE below, recommend up to 3 of the best options.'',
        [],
        ''    Your goal is to give variety. If the user'' @ quote
          @ ''s budget allows, strongly prioritize recommending dishes from DIFFERENT stalls.'',
        [],
        ''    Respond ONLY with a list. For each recommendation, you MUST use the following format exactly, pulling the real link from the ''
          @ quote @ ''gmaps_link'' @ quote @ '' field in the JSON:'',
        [],
        ''    **1. [Dish Name] at [Stall Name]**'',
        ''    * **Price:** '' @ rupee @ ''[Price]'',
        ''    * **Address:** [Landmark], [Location Area]'',
        ''    * **Why it'' @ quote
          @ ''s Mast:** [A very short, 1-sentence reason why it'' @ quote
          @ ''s a great choice for their specific craving and situation.]'',
        ''    * **Maps Link:** [Google Maps Link]'',
        [],
        ''    --- JSON DATABASE ---'',
        ''    '' @ database_json]
     @ ''    ''"

definition recommendation_error_message :: "exn \<Rightarrow> string" where
  "recommendation_error_message e =
     ''Sorry, boss! Couldn'' @ quote @ ''t get a recommendation right now. Error: '' @ exn_str e"

definition get_recommendations ::
  "env \<Rightarrow> json \<Rightarrow> json \<Rightarrow> json \<Rightarrow> dataframe \<Rightarrow> string \<Rightarrow> string prog" where
  "get_recommendations env location budget craving food_data current_time_str =
     and_then (emit (Invoke ''get_recommendations'')) (\<lambda>_.
     if df_empty food_data then ret unavailable_message
     else
       and_then (lift (to_json env food_data)) (\<lambda>database_json.
       and_then (py_lower craving) (\<lambda>lowered.
       let craving_instruction =
             (if lowered = ''anything'' then popular_instruction
              else mood_instruction (format_value env craving));
           prompt = recommendation_prompt (format_value env location) (format_value env budget)
                      current_time_str craving_instruction database_json
       in try_except (model_generate env prompt)
            (\<lambda>e. ret (recommendation_error_message e)))))"

section \<open>The script\<close>

text \<open>
  The time context (lines 168 to 171): \<open>hour\<close> is \<open>int(now_ist.strftime("%I"))\<close>, the hour
  on the 12-hour clock without its leading zero, and \<open>time_rest\<close> is
  \<open>now_ist.strftime(":%M %p on a %A")\<close>. \<open>hour\<close> of a \<open>datetime\<close> is 0 to 23 and
  \<open>weekday\<close> counts from Monday.
\<close>

definition hour12 :: "nat \<Rightarrow> nat" where
  "hour12 h = (if h mod 12 = 0 then 12 else h mod 12)"

definition two_digits :: "nat \<Rightarrow> string" where
  "two_digits n = (if n < 10 then ''0'' @ digits n else digits n)"

definition weekday_name :: "nat \<Rightarrow> string" where
  "weekday_name d =
     [''Monday'', ''Tuesday'', ''Wednesday'', ''Thursday'', ''Friday'', ''Saturday'', ''Sunday'']
       ! (d mod 7)"

definition time_rest :: "datetime \<Rightarrow> string" where
  "time_rest t =
     '':'' @ two_digits (minute t) @ '' '' @ (if hour t < 12 then ''AM'' else ''PM'')
       @ '' on a '' @ weekday_name (weekday t)"

definition current_time_str :: "datetime \<Rightarrow> string" where
  "current_time_str t = digits (hour12 (hour t)) @ time_rest t"

definition greeting :: message where
  "greeting =
     \<lparr>role = Assistant,
      content = ''Hello! I'' @ quote
        @ ''m your Mumbai Food Compass. Tell me your location, budget, and what you''
        @ quote @ ''re craving, and I'' @ quote @ ''ll find the perfect meal for you!''\<rparr>"

definition clarification_message :: string where
  "clarification_message =
     ''I'' @ quote @ ''m sorry, I couldn'' @ quote
       @ ''t understand your location. Could you please tell me where you are in Mumbai?''"

text \<open>\<open>st.session_state.messages.append({"role": r, "content": c})\<close>\<close>

definition append_message :: "role \<Rightarrow> string \<Rightarrow> unit prog" where
  "append_message r c w =
     (case messages w of
        None \<Rightarrow> (Inl (AttributeError ''st.session_state has no attribute \"messages\"''), w)
      | Some ms \<Rightarrow> (Inr (), w\<lparr>messages := Some (ms @ [\<lparr>role = r, content = c\<rparr>])\<rparr>))"

text \<open>The test of line 167: \<open>user_info and user_info.get("location")\<close>.\<close>

definition location_given :: "json \<Rightarrow> bool prog" where
  "location_given user_info =
     (if truthy user_info
      then and_then (dict_get user_info ''location'') (\<lambda>location. ret (truthy location))
      else ret False)"

text \<open>The block under the spinner (lines 164 to 184); its value is \<open>response_message\<close>.\<close>

definition respond :: "env \<Rightarrow> string \<Rightarrow> string prog" where
  "respond env prompt =
     and_then (extract_user_info env prompt) (\<lambda>user_info.
     and_then (location_given user_info) (\<lambda>usable.
     if usable then
       and_then (load_data env) (\<lambda>food_data.
       and_then (subscript user_info ''location'') (\<lambda>location.
       and_then (subscript user_info ''budget'') (\<lambda>budget.
       and_then (subscript user_info ''craving'') (\<lambda>craving.
       get_recommendations env location budget craving food_data
         (current_time_str (now_ist env))))))
     else ret clarification_message))"

text \<open>One submitted chat input (lines 158 to 189).\<close>

definition chat_turn :: "env \<Rightarrow> string \<Rightarrow> unit prog" where
  "chat_turn env prompt =
     and_then (append_message User prompt) (\<lambda>_.
     and_then (emit (UiChat User prompt)) (\<lambda>_.
     and_then (respond env prompt) (\<lambda>response_message.
     and_then (append_message Assistant response_message) (\<lambda>_.
     emit (UiChat Assistant response_message)))))"

definition init_history :: "unit prog" where
  "init_history w =
     (case messages w of
        None \<Rightarrow> (Inr (), w\<lparr>messages := Some [greeting]\<rparr>)
      | Some ms \<Rightarrow> (Inr (), w))"

definition display_history :: "unit prog" where
  "display_history w =
     (case messages w of
        None \<Rightarrow> (Inl (AttributeError ''st.session_state has no attribute \"messages\"''), w)
      | Some ms \<Rightarrow>
          (Inr (), w\<lparr>trace := trace w @ map (\<lambda>m. UiChat (role m) (content m)) ms\<rparr>))"

text \<open>
  One run of the script from line 144 on, after a configuration block that succeeded.
  \<open>chat_input\<close> is what \<open>st.chat_input\<close> returns: \<open>None\<close> when nothing was submitted.
  The walrus test lets only a non-empty text through.
\<close>

definition script_run :: "env \<Rightarrow> string option \<Rightarrow> unit prog" where
  "script_run env chat_input =
     and_then init_history (\<lambda>_.
     and_then display_history (\<lambda>_.
     case chat_input of
       None \<Rightarrow> ret ()
     | Some prompt \<Rightarrow> if prompt \<noteq> [] then chat_turn env prompt else ret ()))"

text \<open>
  A session is a sequence of runs. The state a run leaves behind is the state the next
  run starts from, also when the run ended in an exception.
\<close>

fun session :: "(env \<times> string option) list \<Rightarrow> world \<Rightarrow> world" where
  "session [] w = w"
| "session ((env, chat_input) # runs) w = session runs (snd (script_run env chat_input w))"

definition fresh :: world where
  "fresh = \<lparr>messages = None, cache = None, trace = []\<rparr>"

text \<open>The prompts sent to the model, and the helper functions entered, in a trace.\<close>

fun model_requests :: "event list \<Rightarrow> string list" where
  "model_requests [] = []"
| "model_requests (ModelRequest p # es) = p # model_requests es"
| "model_requests (e # es) = model_requests es"

fun invoked :: "event list \<Rightarrow> string list" where
  "invoked [] = []"
| "invoked (Invoke f # es) = f # invoked es"
| "invoked (e # es) = invoked es"

section \<open>Example surroundings\<close>

text \<open>
  Concrete surroundings on which the theorems below are instantiated: a sheet of one
  row, and a model and a JSON parser that answer from a script.
\<close>

definition demo_table :: dataframe where
  "demo_table =
     \<lparr>columns = [''dish_name'', ''stall_name'', ''price'', ''landmark'', ''location_area'',
                 ''gmaps_link''],
      rows = [[JStr ''Vada Pav'', JStr ''Aram'', JInt 25, JStr ''Opposite CST'', JStr ''Fort'',
               JStr ''https://maps.example/aram'']]\<rparr>"

definition demo_json :: string where
  "demo_json = ''[{\"dish_name\":\"Vada Pav\",\"stall_name\":\"Aram\",\"price\":25}]''"

definition scripted_env ::
  "string option \<Rightarrow> (exn + dataframe) \<Rightarrow> (exn + string) \<Rightarrow> (string \<times> json) list
     \<Rightarrow> (exn + string) \<Rightarrow> env" where
  "scripted_env sheet_url sheet extraction parses recommendation =
     \<lparr>secrets = (\<lambda>k. if k = ''SHEET_URL'' then sheet_url else None),
      read_csv = (\<lambda>url. sheet),
      generate_content =
        (\<lambda>p. if prefix (nl @ ''    Extract'') p then extraction else recommendation),
      json_loads =
        (\<lambda>s. case map_of parses s of
                None \<Rightarrow> Inl (JSONDecodeError ''Expecting value: line 1 column 1 (char 0)'')
              | Some v \<Rightarrow> Inr v),
      to_json = (\<lambda>df. Inr demo_json),
      format_other = (\<lambda>v. ''?''),
      now_ist = \<lparr>hour = 19, minute = 5, weekday = 0\<rparr>\<rparr>"

definition fenced :: "string \<Rightarrow> string" where
  "fenced body = ''```json'' @ nl @ body @ nl @ ''```''"

definition started :: world where
  "started = fresh\<lparr>messages := Some [greeting]\<rparr>"

text \<open>
  Surroundings in which the model answers the extraction prompt with \<open>body\<close> inside a
  code fence, \<open>json.loads\<close> reads \<open>body\<close> as \<open>parsed\<close>, and the sheet is \<open>demo_table\<close>.
\<close>

definition reply_env :: "string \<Rightarrow> json \<Rightarrow> env" where
  "reply_env body parsed =
     scripted_env (Some ''https://sheet.example/food.csv'') (Inr demo_table)
       (Inr (fenced body)) [(body, parsed)] (Inr ''**1. Vada Pav at Aram**'')"

text \<open>Surroundings in which every request to the model fails.\<close>

definition model_down_env :: env where
  "model_down_env =
     scripted_env (Some ''https://sheet.example/food.csv'') (Inr demo_table)
       (Inl (Error ''503 Service Unavailable'')) [] (Inl (Error ''503 Service Unavailable''))"

section \<open>Auxiliary facts\<close>

lemmas monad_defs = ret_def raise_def lift_def and_then_def try_except_def emit_def

lemma model_requests_append:
  "model_requests (xs @ ys) = model_requests xs @ model_requests ys"
  by (induction xs rule: model_requests.induct) simp_all

lemma invoked_append: "invoked (xs @ ys) = invoked xs @ invoked ys"
  by (induction xs rule: invoked.induct) simp_all

lemma extract_user_info_cases:
  "extract_user_info env msg w =
     (case generate_content env (extract_prompt msg) of
        Inl e \<Rightarrow> (Inr JNull, w\<lparr>trace := trace w @ [Invoke ''extract_user_info'',
                     ModelRequest (extract_prompt msg), UiError (extract_error_message e)]\<rparr>)
      | Inr reply \<Rightarrow>
          (case json_loads env (clean_reply reply) of
             Inl e \<Rightarrow> (Inr JNull, w\<lparr>trace := trace w @ [Invoke ''extract_user_info'',
                     ModelRequest (extract_prompt msg), UiError (extract_error_message e)]\<rparr>)
           | Inr v \<Rightarrow> (Inr v, w\<lparr>trace := trace w @ [Invoke ''extract_user_info'',
                     ModelRequest (extract_prompt msg)]\<rparr>)))"
  by (simp add: extract_user_info_def model_generate_def monad_defs split: sum.splits)

lemma load_data_cases:
  "load_data env w =
     (case cache w of
        Some df \<Rightarrow> (Inr df, w\<lparr>trace := trace w @ [Invoke ''load_data'']\<rparr>)
      | None \<Rightarrow>
         (case secrets env ''SHEET_URL'' of
            None \<Rightarrow> (Inr DataFrame_new,
                      w\<lparr>trace := trace w @ [Invoke ''load_data'',
                           UiError (load_error_message (KeyError ''SHEET_URL''))],
                        cache := Some DataFrame_new\<rparr>)
          | Some url \<Rightarrow>
             (case read_csv env url of
                Inl e \<Rightarrow> (Inr DataFrame_new,
                      w\<lparr>trace := trace w @ [Invoke ''load_data'', SheetRead url,
                           UiError (load_error_message e)],
                        cache := Some DataFrame_new\<rparr>)
              | Inr df \<Rightarrow> (Inr df,
                      w\<lparr>trace := trace w @ [Invoke ''load_data'', SheetRead url],
                        cache := Some df\<rparr>))))"
  by (simp add: load_data_def load_data_body_def lookup_secret_def pd_read_csv_def monad_defs
           split: sum.splits option.splits)

lemma extract_prompt_prefix: "prefix (nl @ ''    Extract'') (extract_prompt msg)"
  by (simp add: extract_prompt_def lines_nl_def nl_def)

lemma recommendation_prompt_prefix:
  "\<not> prefix (nl @ ''    Extract'') (recommendation_prompt l b t i d)"
  by (simp add: recommendation_prompt_def lines_nl_def nl_def)

section \<open>The composer on an empty table\<close>

text \<open>
  C1. Whatever the location, budget, craving and time context are, on an empty table
  \<open>get_recommendations\<close> returns the fixed "database unavailable" message: it raises
  nothing, sends no request to the model, and leaves of the world only its own entry in
  the call trace.
\<close>

theorem get_recommendations_empty_table:
  assumes "df_empty food_data"
  shows "get_recommendations env location budget craving food_data time_str w =
           (Inr unavailable_message, w\<lparr>trace := trace w @ [Invoke ''get_recommendations'']\<rparr>)
         \<and> model_requests (trace (snd (get_recommendations env location budget craving
              food_data time_str w))) = model_requests (trace w)"
  using assms by (simp add: get_recommendations_def monad_defs model_requests_append)

theorem get_recommendations_empty_table_witness:
  "df_empty DataFrame_new
   \<and> get_recommendations (scripted_env None (Inl (Error ''no sheet'')) (Inl (Error ''down'')) []
        (Inl (Error ''down''))) (JStr ''CST'') (JInt 200) JNull DataFrame_new
        ''7:05 PM on a Monday'' fresh
     = (Inr ''Sorry, the food database is currently unavailable.'',
        fresh\<lparr>trace := [Invoke ''get_recommendations'']\<rparr>)"
  using get_recommendations_empty_table [of DataFrame_new
      "scripted_env None (Inl (Error ''no sheet'')) (Inl (Error ''down'')) [] (Inl (Error ''down''))"
      "JStr ''CST''" "JInt 200" JNull "''7:05 PM on a Monday''" fresh]
  by (simp add: df_empty_def DataFrame_new_def unavailable_message_def fresh_def)

subsection \<open>Code fences\<close>






subsection \<open>White space\<close>

lemma whitespace_nonempty: "p \<in> set whitespace \<Longrightarrow> p \<noteq> []"
  by (auto simp: whitespace_def)

lemma leading_space_0_iff: "leading_space s = 0 \<longleftrightarrow> (\<forall>p\<in>set whitespace. \<not> prefix p s)"
proof (cases "find (\<lambda>p. prefix p s) whitespace")
  case None
  then have "\<forall>p\<in>set whitespace. \<not> prefix p s" by (simp add: find_None_iff)
  with None show ?thesis by (simp add: leading_space_def)
next
  case (Some p)
  then have "p \<in> set whitespace" "prefix p s"
    by (auto simp: find_Some_iff)
  with Some show ?thesis
    using whitespace_nonempty [of p] by (auto simp: leading_space_def)
qed


lemma lstrip_unfold:
  "lstrip s = (if leading_space s = 0 then s else lstrip (drop (leading_space s) s))"
  by (cases s) simp_all

lemma rstrip_unfold:
  "rstrip s = (if trailing_space s = 0 then s else rstrip (take (length s - trailing_space s) s))"
  by (cases s) simp_all








subsection \<open>The cleaned reply\<close>



lemma str_remove_skip:
  "old \<noteq> [] \<Longrightarrow> hd old \<notin> set a \<Longrightarrow> str_remove old (a @ s) = a @ str_remove old s"
proof (induction a)
  case Nil
  then show ?case by simp
next
  case (Cons x a)
  from Cons.prems have "\<not> prefix old (x # a @ s)"
    by (cases old) auto
  with Cons show ?case by simp
qed

lemma leading_space_tick: "leading_space (CHR 0x60 # s) = 0"
  by (simp add: leading_space_def whitespace_def)

lemma trailing_space_tick: "trailing_space (s @ [CHR 0x60]) = 0"
  by (simp add: trailing_space_def whitespace_def suffix_to_prefix)

lemma strip_ticks: "strip (CHR 0x60 # s @ [CHR 0x60]) = CHR 0x60 # s @ [CHR 0x60]"
proof -
  have "trailing_space ((CHR 0x60 # s) @ [CHR 0x60]) = 0" by (rule trailing_space_tick)
  then have "rstrip (CHR 0x60 # s @ [CHR 0x60]) = CHR 0x60 # s @ [CHR 0x60]"
    by (subst rstrip_unfold) simp
  then show ?thesis by (simp add: strip_def leading_space_tick)
qed


lemma clean_reply_fenced:
  assumes "CHR 0x60 \<notin> set body"
  shows "clean_reply (''```json'' @ body @ ''```'') = strip body"
proof -
  have s: "strip (''```json'' @ body @ ''```'') = ''```json'' @ body @ ''```''"
    using strip_ticks [of "''``json'' @ body @ ''``''"] by simp
  have "str_remove ''```json'' (''```json'' @ body @ ''```'')
          = str_remove ''```json'' (body @ ''```'')" by simp
  also have "\<dots> = body @ str_remove ''```json'' ''```''"
    using assms by (intro str_remove_skip) simp_all
  also have "\<dots> = body @ ''```''" by simp
  finally have j: "str_remove ''```json'' (''```json'' @ body @ ''```'') = body @ ''```''" .
  have "str_remove ''```'' (body @ ''```'') = body @ str_remove ''```'' ''```''"
    using assms by (intro str_remove_skip) simp_all
  then have t: "str_remove ''```'' (body @ ''```'') = body" by simp
  show ?thesis unfolding clean_reply_def s j t ..
qed

lemma leading_space_nl: "leading_space (CHR 0x0A # s) = 1"
  by (simp add: leading_space_def whitespace_def)

lemma trailing_space_nl: "trailing_space (s @ [CHR 0x0A]) = 1"
  by (simp add: trailing_space_def whitespace_def suffix_to_prefix)

lemma whitespace_last_nl: "p \<in> set whitespace \<Longrightarrow> last p = CHR 0x0A \<Longrightarrow> p = [CHR 0x0A]"
  by (auto simp: whitespace_def)

lemma leading_space_snoc_nl:
  assumes "b \<noteq> []" and "leading_space b = 0"
  shows "leading_space (b @ [CHR 0x0A]) = 0"
  unfolding leading_space_0_iff
proof
  fix p assume p: "p \<in> set whitespace"
  show "\<not> prefix p (b @ [CHR 0x0A])"
  proof
    assume "prefix p (b @ [CHR 0x0A])"
    then consider "prefix p b" | "p = b @ [CHR 0x0A]"
      by (auto simp: prefix_snoc)
    then show False
    proof cases
      case 1
      with assms(2) p show False by (simp add: leading_space_0_iff)
    next
      case 2
      then have "last p = CHR 0x0A" by simp
      with p have "p = [CHR 0x0A]" by (rule whitespace_last_nl)
      with 2 assms(1) show False by simp
    qed
  qed
qed

text \<open>A text between two newlines that neither starts nor ends with white space.\<close>

lemma strip_lines:
  assumes "b \<noteq> []" and "leading_space b = 0" and "trailing_space b = 0"
  shows "strip (nl @ b @ nl) = b"
proof -
  have "lstrip (nl @ b @ nl) = lstrip (b @ nl)"
    by (simp add: nl_def leading_space_nl)
  also have "\<dots> = b @ nl"
    using leading_space_snoc_nl [OF assms(1,2)] by (subst lstrip_unfold) (simp add: nl_def)
  finally have l: "lstrip (nl @ b @ nl) = b @ nl" .
  have "rstrip (b @ nl) = rstrip b"
    by (subst rstrip_unfold) (simp add: nl_def trailing_space_nl)
  also have "\<dots> = b"
    using assms(3) by (subst rstrip_unfold) simp
  finally show ?thesis by (simp add: strip_def l)
qed

lemma clean_reply_fenced_lines:
  assumes "CHR 0x60 \<notin> set b" and "b \<noteq> []" and "leading_space b = 0" and "trailing_space b = 0"
  shows "clean_reply (fenced b) = b"
proof -
  have "CHR 0x60 \<notin> set (nl @ b @ nl)" using assms(1) by (simp add: nl_def)
  then have "clean_reply (''```json'' @ (nl @ b @ nl) @ ''```'') = strip (nl @ b @ nl)"
    by (rule clean_reply_fenced)
  with strip_lines [OF assms(2,3,4)] show ?thesis by (simp add: fenced_def)
qed

lemmas space_defs = leading_space_def trailing_space_def whitespace_def suffix_to_prefix



text \<open>The value of \<open>extract_user_info\<close> does not depend on the state it starts from.\<close>

lemma extract_user_info_fst:
  "fst (extract_user_info env msg w) = fst (extract_user_info env msg w')"
  by (simp add: extract_user_info_cases split: sum.splits)

lemma extract_user_info_effect:
  "messages (snd (extract_user_info env msg w)) = messages w"
  "cache (snd (extract_user_info env msg w)) = cache w"
  "invoked (trace (snd (extract_user_info env msg w))) = invoked (trace w) @ [''extract_user_info'']"
  "model_requests (trace (snd (extract_user_info env msg w)))
     = model_requests (trace w) @ [extract_prompt msg]"
  by (simp_all add: extract_user_info_cases invoked_append model_requests_append split: sum.splits)

lemma chat_turn_short_circuit:
  assumes ms: "messages w = Some ms"
    and ex: "fst (extract_user_info env prompt w) = Inr user_info"
    and gate: "\<not> truthy user_info \<or>
               (\<exists>kvs. user_info = JObj kvs \<and>
                  \<not> truthy (case map_of kvs ''location'' of None \<Rightarrow> JNull | Some v \<Rightarrow> v))"
  shows "fst (chat_turn env prompt w) = Inr ()"
    and "messages (snd (chat_turn env prompt w)) =
           Some (ms @ [\<lparr>role = User, content = prompt\<rparr>,
                       \<lparr>role = Assistant, content = clarification_message\<rparr>])"
    and "invoked (trace (snd (chat_turn env prompt w))) = invoked (trace w) @ [''extract_user_info'']"
    and "model_requests (trace (snd (chat_turn env prompt w)))
           = model_requests (trace w) @ [extract_prompt prompt]"
    and "cache (snd (chat_turn env prompt w)) = cache w"
proof -
  define w1 where "w1 = w\<lparr>messages := Some (ms @ [\<lparr>role = User, content = prompt\<rparr>]),
                          trace := trace w @ [UiChat User prompt]\<rparr>"
  obtain w2 where e2: "extract_user_info env prompt w1 = (Inr user_info, w2)"
    using ex extract_user_info_fst [of env prompt w1 w] by (cases "extract_user_info env prompt w1") simp
  have w2: "messages w2 = messages w1" "cache w2 = cache w1"
    "invoked (trace w2) = invoked (trace w1) @ [''extract_user_info'']"
    "model_requests (trace w2) = model_requests (trace w1) @ [extract_prompt prompt]"
    using extract_user_info_effect [of env prompt w1] e2 by simp_all
  have lg: "location_given user_info w2 = (Inr False, w2)"
    using gate by (auto simp: location_given_def dict_get_def monad_defs)
  have r: "respond env prompt w1 = (Inr clarification_message, w2)"
    by (simp add: respond_def and_then_def e2 lg ret_def)
  have ct: "chat_turn env prompt w =
          (Inr (), w2\<lparr>messages := Some (ms @ [\<lparr>role = User, content = prompt\<rparr>,
                         \<lparr>role = Assistant, content = clarification_message\<rparr>]),
                     trace := trace w2 @ [UiChat Assistant clarification_message]\<rparr>)"
    using ms w2(1) by (simp add: chat_turn_def append_message_def and_then_def emit_def r w1_def [symmetric])
       (simp add: w1_def emit_def)
  show "fst (chat_turn env prompt w) = Inr ()" by (simp add: ct)
  show "messages (snd (chat_turn env prompt w)) =
           Some (ms @ [\<lparr>role = User, content = prompt\<rparr>,
                       \<lparr>role = Assistant, content = clarification_message\<rparr>])"
    by (simp add: ct)
  show "invoked (trace (snd (chat_turn env prompt w))) = invoked (trace w) @ [''extract_user_info'']"
    by (simp add: ct invoked_append w2 w1_def)
  show "model_requests (trace (snd (chat_turn env prompt w)))
           = model_requests (trace w) @ [extract_prompt prompt]"
    by (simp add: ct model_requests_append w2 w1_def)
  show "cache (snd (chat_turn env prompt w)) = cache w"
    by (simp add: ct w2 w1_def)
qed

lemma reply_env_extracts:
  assumes "clean_reply (fenced body) = body"
  shows "fst (extract_user_info (reply_env body parsed) msg w) = Inr parsed"
  using assms
  by (simp add: extract_user_info_cases reply_env_def scripted_env_def extract_prompt_prefix)

lemma model_down_extracts:
  "fst (extract_user_info model_down_env msg w) = Inr JNull"
  by (simp add: extract_user_info_cases model_down_env_def scripted_env_def extract_prompt_prefix)

lemma clean_fenced_null_location:
  "clean_reply (fenced ''{\"location\": null, \"budget\": 100, \"craving\": \"anything\"}'')
     = ''{\"location\": null, \"budget\": 100, \"craving\": \"anything\"}''"
  by (rule clean_reply_fenced_lines) (simp_all add: space_defs)

lemma clean_fenced_empty_location:
  "clean_reply (fenced ''{\"location\": \"\", \"budget\": 100, \"craving\": \"anything\"}'')
     = ''{\"location\": \"\", \"budget\": 100, \"craving\": \"anything\"}''"
  by (rule clean_reply_fenced_lines) (simp_all add: space_defs)

section \<open>Loading the table\<close>

text \<open>
  C3. \<open>load_data\<close> always returns a table and never raises: the table of the cache when
  there is one, otherwise the empty \<open>DataFrame\<close> when the secret \<open>SHEET_URL\<close> is
  missing or \<open>read_csv\<close> raises, and the table read otherwise. The empty
  \<open>DataFrame\<close> is \<open>empty\<close> in the sense of pandas.
\<close>

theorem load_data_never_raises:
  "fst (load_data env w) =
     Inr (case cache w of
            Some df \<Rightarrow> df
          | None \<Rightarrow>
              (case secrets env ''SHEET_URL'' of
                 None \<Rightarrow> DataFrame_new
               | Some url \<Rightarrow> (case read_csv env url of Inl e \<Rightarrow> DataFrame_new | Inr df \<Rightarrow> df)))
   \<and> df_empty DataFrame_new"
  by (simp add: load_data_cases df_empty_def DataFrame_new_def split: option.splits sum.splits)

section \<open>Extraction\<close>

lemma clean_fenced_nan: "clean_reply (fenced ''NaN'') = ''NaN''"
  by (rule clean_reply_fenced_lines) (simp_all add: space_defs)




section \<open>The location gate\<close>

text \<open>
  C2. When the extractor returns a dictionary whose \<open>location\<close> is \<open>None\<close>, the turn
  ends normally, the history gains the user's message and then the fixed clarification
  message, and the only helper function entered is \<open>extract_user_info\<close>:
  \<open>get_recommendations\<close> is not called, and the only request to the model is the
  extraction prompt.
\<close>

theorem null_location_short_circuits:
  assumes "messages w = Some ms"
    and "fst (extract_user_info env prompt w) = Inr (JObj kvs)"
    and "map_of kvs ''location'' = Some JNull"
  shows "fst (chat_turn env prompt w) = Inr ()
       \<and> messages (snd (chat_turn env prompt w)) =
           Some (ms @ [\<lparr>role = User, content = prompt\<rparr>,
                       \<lparr>role = Assistant, content = clarification_message\<rparr>])
       \<and> invoked (trace (snd (chat_turn env prompt w))) = invoked (trace w) @ [''extract_user_info'']
       \<and> model_requests (trace (snd (chat_turn env prompt w)))
           = model_requests (trace w) @ [extract_prompt prompt]"
  using chat_turn_short_circuit [OF assms(1) assms(2)] assms(3) by simp

theorem null_location_short_circuits_witness:
  "messages started = Some [greeting]
   \<and> fst (extract_user_info
        (reply_env ''{\"location\": null, \"budget\": 100, \"craving\": \"anything\"}''
           (JObj [(''location'', JNull), (''budget'', JInt 100), (''craving'', JStr ''anything'')]))
        ''I am hungry'' started)
       = Inr (JObj [(''location'', JNull), (''budget'', JInt 100), (''craving'', JStr ''anything'')])
   \<and> map_of [(''location'', JNull), (''budget'', JInt 100), (''craving'', JStr ''anything'')]
        ''location'' = Some JNull
   \<and> messages (snd (chat_turn
        (reply_env ''{\"location\": null, \"budget\": 100, \"craving\": \"anything\"}''
           (JObj [(''location'', JNull), (''budget'', JInt 100), (''craving'', JStr ''anything'')]))
        ''I am hungry'' started))
       = Some [greeting, \<lparr>role = User, content = ''I am hungry''\<rparr>,
               \<lparr>role = Assistant, content = clarification_message\<rparr>]
   \<and> invoked (trace (snd (chat_turn
        (reply_env ''{\"location\": null, \"budget\": 100, \"craving\": \"anything\"}''
           (JObj [(''location'', JNull), (''budget'', JInt 100), (''craving'', JStr ''anything'')]))
        ''I am hungry'' started)))
       = [''extract_user_info'']"
proof -
  have h1: "messages started = Some [greeting]" by (simp add: started_def fresh_def)
  have h2: "fst (extract_user_info
        (reply_env ''{\"location\": null, \"budget\": 100, \"craving\": \"anything\"}''
           (JObj [(''location'', JNull), (''budget'', JInt 100), (''craving'', JStr ''anything'')]))
        ''I am hungry'' started)
       = Inr (JObj [(''location'', JNull), (''budget'', JInt 100), (''craving'', JStr ''anything'')])"
    by (rule reply_env_extracts) (rule clean_fenced_null_location)
  have h3: "map_of [(''location'', JNull), (''budget'', JInt 100), (''craving'', JStr ''anything'')]
        ''location'' = Some JNull" by simp
  show ?thesis
    using null_location_short_circuits [OF h1 h2 h3] h1 h2
    by (simp add: started_def fresh_def)
qed

text \<open>
  C9. The gate of line 167 tests truthiness: when the extractor returns a dictionary whose
  \<open>location\<close> is any falsy value (the empty string, \<open>0\<close>, \<open>False\<close>, \<open>0.0\<close>, an empty
  list or dictionary, as well as \<open>None\<close>), the test fails and the turn ends as for a
  missing location: the clarification message is appended and \<open>get_recommendations\<close> is
  not called.
\<close>

theorem falsy_location_short_circuits:
  assumes "messages w = Some ms"
    and "fst (extract_user_info env prompt w) = Inr (JObj kvs)"
    and "map_of kvs ''location'' = Some v"
    and "\<not> truthy v"
  shows "fst (location_given (JObj kvs) w) = Inr False
       \<and> fst (chat_turn env prompt w) = Inr ()
       \<and> messages (snd (chat_turn env prompt w)) =
           Some (ms @ [\<lparr>role = User, content = prompt\<rparr>,
                       \<lparr>role = Assistant, content = clarification_message\<rparr>])
       \<and> invoked (trace (snd (chat_turn env prompt w))) = invoked (trace w) @ [''extract_user_info'']
       \<and> model_requests (trace (snd (chat_turn env prompt w)))
           = model_requests (trace w) @ [extract_prompt prompt]
       \<and> \<not> truthy (JStr '''') \<and> \<not> truthy (JInt 0) \<and> \<not> truthy (JBool False)
       \<and> \<not> truthy (JFloat (Finite 0)) \<and> \<not> truthy (JArr []) \<and> \<not> truthy (JObj [])"
proof -
  have "fst (location_given (JObj kvs) w) = Inr False"
    using assms(3,4) by (auto simp: location_given_def dict_get_def monad_defs)
  then show ?thesis
    using chat_turn_short_circuit [OF assms(1) assms(2)] assms(3,4) by simp
qed

theorem falsy_location_short_circuits_witness:
  "messages started = Some [greeting]
   \<and> fst (extract_user_info
        (reply_env ''{\"location\": \"\", \"budget\": 100, \"craving\": \"anything\"}''
           (JObj [(''location'', JStr ''''), (''budget'', JInt 100), (''craving'', JStr ''anything'')]))
        ''Feed me'' started)
       = Inr (JObj [(''location'', JStr ''''), (''budget'', JInt 100), (''craving'', JStr ''anything'')])
   \<and> map_of [(''location'', JStr ''''), (''budget'', JInt 100), (''craving'', JStr ''anything'')]
        ''location'' = Some (JStr '''')
   \<and> \<not> truthy (JStr '''') \<and> JStr '''' \<noteq> JNull
   \<and> messages (snd (chat_turn
        (reply_env ''{\"location\": \"\", \"budget\": 100, \"craving\": \"anything\"}''
           (JObj [(''location'', JStr ''''), (''budget'', JInt 100), (''craving'', JStr ''anything'')]))
        ''Feed me'' started))
       = Some [greeting, \<lparr>role = User, content = ''Feed me''\<rparr>,
               \<lparr>role = Assistant, content = clarification_message\<rparr>]
   \<and> invoked (trace (snd (chat_turn
        (reply_env ''{\"location\": \"\", \"budget\": 100, \"craving\": \"anything\"}''
           (JObj [(''location'', JStr ''''), (''budget'', JInt 100), (''craving'', JStr ''anything'')]))
        ''Feed me'' started)))
       = [''extract_user_info'']"
proof -
  have h1: "messages started = Some [greeting]" by (simp add: started_def fresh_def)
  have h2: "fst (extract_user_info
        (reply_env ''{\"location\": \"\", \"budget\": 100, \"craving\": \"anything\"}''
           (JObj [(''location'', JStr ''''), (''budget'', JInt 100), (''craving'', JStr ''anything'')]))
        ''Feed me'' started)
       = Inr (JObj [(''location'', JStr ''''), (''budget'', JInt 100), (''craving'', JStr ''anything'')])"
    by (rule reply_env_extracts) (rule clean_fenced_empty_location)
  have h3: "map_of [(''location'', JStr ''''), (''budget'', JInt 100), (''craving'', JStr ''anything'')]
        ''location'' = Some (JStr '''')" by simp
  have h4: "\<not> truthy (JStr '''')" by simp
  show ?thesis
    using falsy_location_short_circuits [OF h1 h2 h3 h4] h1 h2
    by (simp add: started_def fresh_def)
qed

text \<open>
  C10. When the extractor returns \<open>None\<close> (which it does whenever the request to the
  model or the parse of its reply raises), the assistant message appended to the history
  is exactly the clarification message about the location, and the only helper function
  entered during the turn is \<open>extract_user_info\<close>.
\<close>

theorem failed_extraction_asks_for_location:
  assumes "messages w = Some ms"
    and "fst (extract_user_info env prompt w) = Inr JNull"
  shows "fst (chat_turn env prompt w) = Inr ()
       \<and> messages (snd (chat_turn env prompt w)) =
           Some (ms @ [\<lparr>role = User, content = prompt\<rparr>,
                       \<lparr>role = Assistant, content = clarification_message\<rparr>])
       \<and> invoked (trace (snd (chat_turn env prompt w))) = invoked (trace w) @ [''extract_user_info'']
       \<and> model_requests (trace (snd (chat_turn env prompt w)))
           = model_requests (trace w) @ [extract_prompt prompt]"
  using chat_turn_short_circuit [OF assms(1) assms(2)] by simp

theorem failed_extraction_asks_for_location_witness:
  "messages started = Some [greeting]
   \<and> fst (extract_user_info model_down_env ''I am near CST and want misal'' started) = Inr JNull
   \<and> messages (snd (chat_turn model_down_env ''I am near CST and want misal'' started))
       = Some [greeting, \<lparr>role = User, content = ''I am near CST and want misal''\<rparr>,
               \<lparr>role = Assistant, content = clarification_message\<rparr>]
   \<and> invoked (trace (snd (chat_turn model_down_env ''I am near CST and want misal'' started)))
       = [''extract_user_info'']"
proof -
  have h1: "messages started = Some [greeting]" by (simp add: started_def fresh_def)
  have h2: "fst (extract_user_info model_down_env ''I am near CST and want misal'' started)
              = Inr JNull"
    by (rule model_down_extracts)
  show ?thesis
    using failed_extraction_asks_for_location [OF h1 h2] h1 h2
    by (simp add: started_def fresh_def)
qed

section \<open>The craving instruction\<close>

text \<open>
  C5, as amended. On a non-empty table that \<open>to_json\<close> can serialise, and for a craving
  that is a string, \<open>get_recommendations\<close> sends exactly one request, and the prompt
  carries the instruction for popular and iconic dishes if and only if the craving
  \<^emph>\<open>in lower case\<close> is \<open>anything\<close>; otherwise it carries the instruction to match the
  craving as the user wrote it. The two instructions are never the same text.
\<close>

theorem craving_branch_ignores_case:
  assumes "\<not> df_empty food_data"
    and "to_json env food_data = Inr database_json"
  shows "model_requests (trace (snd (get_recommendations env location budget (JStr craving)
            food_data time_str w)))
         = model_requests (trace w) @
             [recommendation_prompt (format_value env location) (format_value env budget) time_str
                (if map lower_char craving = ''anything'' then popular_instruction
                 else mood_instruction craving)
                database_json]
       \<and> popular_instruction \<noteq> mood_instruction craving"
proof -
  have "popular_instruction \<noteq> mood_instruction craving"
    by (simp add: popular_instruction_def mood_instruction_def)
  then show ?thesis
    using assms
    by (simp add: get_recommendations_def py_lower_def model_generate_def monad_defs Let_def
          model_requests_append split: sum.splits)
qed

theorem craving_branch_ignores_case_witness:
  "\<not> df_empty demo_table
   \<and> to_json model_down_env demo_table = Inr demo_json
   \<and> model_requests (trace (snd (get_recommendations model_down_env (JStr ''CST'') (JInt 200)
        (JStr ''cheesy'') demo_table ''7:05 PM on a Monday'' fresh)))
     = [recommendation_prompt ''CST'' ''200'' ''7:05 PM on a Monday''
          (mood_instruction ''cheesy'') demo_json]"
proof -
  have h1: "\<not> df_empty demo_table" by (simp add: df_empty_def demo_table_def)
  have h2: "to_json model_down_env demo_table = Inr demo_json"
    by (simp add: model_down_env_def scripted_env_def)
  show ?thesis
    using craving_branch_ignores_case [OF h1 h2, of "JStr ''CST''" "JInt 200" "''cheesy''"
        "''7:05 PM on a Monday''" fresh] h1 h2
    by (simp add: fresh_def lower_char_def show_int_def digits.simps)
qed

text \<open>
  C5 as stated fails: the craving \<open>Anything\<close> is not the sentinel \<open>anything\<close>, and yet
  the prompt sent carries the instruction for popular dishes, because line 103 compares
  \<open>craving.lower()\<close>.
\<close>

theorem craving_sentinel_counterexample:
  "JStr ''Anything'' \<noteq> JStr ''anything''
   \<and> \<not> df_empty demo_table
   \<and> model_requests (trace (snd (get_recommendations model_down_env (JStr ''CST'') (JInt 200)
        (JStr ''Anything'') demo_table ''7:05 PM on a Monday'' fresh)))
     = [recommendation_prompt ''CST'' ''200'' ''7:05 PM on a Monday'' popular_instruction
          demo_json]"
  by (simp add: get_recommendations_def py_lower_def model_generate_def monad_defs Let_def
        df_empty_def demo_table_def model_down_env_def scripted_env_def fresh_def
        lower_char_def show_int_def digits.simps recommendation_prompt_prefix)

section \<open>Defaults of the intent\<close>

lemma sublist_lines_nl: "l \<in> set ls \<Longrightarrow> sublist l (lines_nl ls)"
proof (induction ls)
  case Nil
  then show ?case by simp
next
  case (Cons a ls)
  show ?case
  proof (cases "l = a")
    case True
    then show ?thesis by (simp add: lines_nl_def)
  next
    case False
    with Cons have "sublist l (lines_nl ls)" by simp
    moreover have "sublist (lines_nl ls) ((a @ nl) @ lines_nl ls)"
      by (rule sublist_append_leftI)
    ultimately have "sublist l ((a @ nl) @ lines_nl ls)" by (rule sublist_order.order.trans)
    then show ?thesis by (simp add: lines_nl_def)
  qed
qed

lemma sublist_extract_prompt:
  assumes "sublist l (lines_nl ls)" and "extract_prompt msg = nl @ lines_nl ls @ ''    ''"
  shows "sublist l (extract_prompt msg)"
proof -
  have "sublist (lines_nl ls) (nl @ lines_nl ls @ ''    '')" by (rule sublist_appendI)
  with assms(1) have "sublist l (nl @ lines_nl ls @ ''    '')" by (rule sublist_order.order.trans)
  then show ?thesis by (simp only: assms(2))
qed

lemma clean_fenced_off_script:
  "clean_reply (fenced ''{\"location\": \"CST\", \"budget\": 50, \"craving\": \"misal\"}'')
     = ''{\"location\": \"CST\", \"budget\": 50, \"craving\": \"misal\"}''"
  by (rule clean_reply_fenced_lines) (simp_all add: space_defs)

text \<open>
  C7, as amended. The script fills in no default. For every utterance the extractor sends
  the model one prompt, which holds the utterance and the two rules "assume 100 INR when
  no budget is mentioned" and "set the craving to anything when none is mentioned", and
  it returns what \<open>json.loads\<close> makes of the reply, unchanged: budget and craving of the
  intent are whatever the reply holds.
\<close>

theorem extraction_passes_reply_through:
  assumes "generate_content env (extract_prompt msg) = Inr reply"
    and "json_loads env (clean_reply reply) = Inr v"
  shows "fst (extract_user_info env msg w) = Inr v
       \<and> model_requests (trace (snd (extract_user_info env msg w)))
           = model_requests (trace w) @ [extract_prompt msg]
       \<and> sublist (''    - **If the user does not mention a '' @ quote @ ''budget'' @ quote
                    @ '', assume it is 100 INR.**'') (extract_prompt msg)
       \<and> sublist (''    - **If the user does not mention a specific '' @ quote @ ''craving''
                    @ quote @ '', set the craving to \"anything\".**'') (extract_prompt msg)
       \<and> sublist (''    USER MESSAGE: \"'' @ msg @ ''\"'') (extract_prompt msg)"
proof -
  have a: "fst (extract_user_info env msg w) = Inr v"
    and b: "model_requests (trace (snd (extract_user_info env msg w)))
           = model_requests (trace w) @ [extract_prompt msg]"
    using assms by (simp_all add: extract_user_info_cases model_requests_append)
  have c: "sublist (''    - **If the user does not mention a '' @ quote @ ''budget'' @ quote
                    @ '', assume it is 100 INR.**'') (extract_prompt msg)"
    by (rule sublist_extract_prompt [OF sublist_lines_nl extract_prompt_def]) simp
  have d: "sublist (''    - **If the user does not mention a specific '' @ quote @ ''craving''
                    @ quote @ '', set the craving to \"anything\".**'') (extract_prompt msg)"
    by (rule sublist_extract_prompt [OF sublist_lines_nl extract_prompt_def]) simp
  have e: "sublist (''    USER MESSAGE: \"'' @ msg @ ''\"'') (extract_prompt msg)"
    by (rule sublist_extract_prompt [OF sublist_lines_nl extract_prompt_def]) simp
  from a b c d e show ?thesis by blast
qed

theorem extraction_passes_reply_through_witness:
  "generate_content
      (reply_env ''{\"location\": \"CST\", \"budget\": 50, \"craving\": \"misal\"}''
         (JObj [(''location'', JStr ''CST''), (''budget'', JInt 50), (''craving'', JStr ''misal'')]))
      (extract_prompt ''I am near CST'')
     = Inr (fenced ''{\"location\": \"CST\", \"budget\": 50, \"craving\": \"misal\"}'')
   \<and> json_loads
      (reply_env ''{\"location\": \"CST\", \"budget\": 50, \"craving\": \"misal\"}''
         (JObj [(''location'', JStr ''CST''), (''budget'', JInt 50), (''craving'', JStr ''misal'')]))
      (clean_reply (fenced ''{\"location\": \"CST\", \"budget\": 50, \"craving\": \"misal\"}''))
     = Inr (JObj [(''location'', JStr ''CST''), (''budget'', JInt 50), (''craving'', JStr ''misal'')])
   \<and> fst (extract_user_info
        (reply_env ''{\"location\": \"CST\", \"budget\": 50, \"craving\": \"misal\"}''
           (JObj [(''location'', JStr ''CST''), (''budget'', JInt 50), (''craving'', JStr ''misal'')]))
        ''I am near CST'' started)
     = Inr (JObj [(''location'', JStr ''CST''), (''budget'', JInt 50), (''craving'', JStr ''misal'')])
   \<and> model_requests (trace (snd (extract_user_info
        (reply_env ''{\"location\": \"CST\", \"budget\": 50, \"craving\": \"misal\"}''
           (JObj [(''location'', JStr ''CST''), (''budget'', JInt 50), (''craving'', JStr ''misal'')]))
        ''I am near CST'' started)))
     = [extract_prompt ''I am near CST'']"
proof -
  have h1: "generate_content
      (reply_env ''{\"location\": \"CST\", \"budget\": 50, \"craving\": \"misal\"}''
         (JObj [(''location'', JStr ''CST''), (''budget'', JInt 50), (''craving'', JStr ''misal'')]))
      (extract_prompt ''I am near CST'')
     = Inr (fenced ''{\"location\": \"CST\", \"budget\": 50, \"craving\": \"misal\"}'')"
    by (simp add: reply_env_def scripted_env_def extract_prompt_prefix)
  have h2: "json_loads
      (reply_env ''{\"location\": \"CST\", \"budget\": 50, \"craving\": \"misal\"}''
         (JObj [(''location'', JStr ''CST''), (''budget'', JInt 50), (''craving'', JStr ''misal'')]))
      (clean_reply (fenced ''{\"location\": \"CST\", \"budget\": 50, \"craving\": \"misal\"}''))
     = Inr (JObj [(''location'', JStr ''CST''), (''budget'', JInt 50), (''craving'', JStr ''misal'')])"
    by (simp add: clean_fenced_off_script) (simp add: reply_env_def scripted_env_def)
  show ?thesis
    using extraction_passes_reply_through [OF h1 h2, of started] h1 h2
    by (simp add: started_def fresh_def)
qed

text \<open>
  C7 as stated fails: the utterance "I am near CST" mentions neither a budget nor a
  craving, and with a model that replies budget 50 and craving misal the intent produced
  has that budget and that craving, not 100 and "anything".
\<close>

theorem extraction_defaults_counterexample:
  "fst (extract_user_info
        (reply_env ''{\"location\": \"CST\", \"budget\": 50, \"craving\": \"misal\"}''
           (JObj [(''location'', JStr ''CST''), (''budget'', JInt 50), (''craving'', JStr ''misal'')]))
        ''I am near CST'' started)
     = Inr (JObj [(''location'', JStr ''CST''), (''budget'', JInt 50), (''craving'', JStr ''misal'')])
   \<and> JInt 50 \<noteq> JInt 100 \<and> JStr ''misal'' \<noteq> JStr ''anything''"
  by (simp add: reply_env_extracts clean_fenced_off_script)

section \<open>The history of the conversation\<close>

text \<open>
  None of the helper functions touches \<open>st.session_state.messages\<close>; only the two
  \<open>append\<close> calls of the script (lines 159 and 189) and the initialisation (line 146) do.
\<close>

lemma keeps_and_then:
  assumes "\<And>w. messages (snd (m w)) = messages w"
    and "\<And>x w. messages (snd (f x w)) = messages w"
  shows "messages (snd (and_then m f w)) = messages w"
proof (cases "m w")
  case (Pair r w')
  with assms(1) [of w] have w': "messages w' = messages w" by simp
  show ?thesis
  proof (cases r)
    case (Inl e)
    with Pair w' show ?thesis by (simp add: and_then_def)
  next
    case (Inr x)
    with Pair w' assms(2) [of x w'] show ?thesis by (simp add: and_then_def)
  qed
qed

lemma keeps_simple:
  "messages (snd (ret x w)) = messages w"
  "messages (snd (raise e w)) = messages w"
  "messages (snd (lift r w)) = messages w"
  "messages (snd (emit ev w)) = messages w"
  by (simp_all add: monad_defs)

lemma keeps_extract: "messages (snd (extract_user_info env msg w)) = messages w"
  by (simp add: extract_user_info_cases split: sum.splits)

lemma keeps_load_data: "messages (snd (load_data env w)) = messages w"
  by (simp add: load_data_cases split: sum.splits option.splits)

lemma keeps_subscript: "messages (snd (subscript d k w)) = messages w"
  by (simp add: subscript_def monad_defs split: json.splits option.splits)

lemma keeps_location_given: "messages (snd (location_given u w)) = messages w"
  by (simp add: location_given_def dict_get_def monad_defs split: json.splits option.splits)

lemma keeps_get_recommendations:
  "messages (snd (get_recommendations env l b c df t w)) = messages w"
  by (simp add: get_recommendations_def py_lower_def model_generate_def monad_defs Let_def
        split: json.splits sum.splits)

lemma keeps_respond: "messages (snd (respond env prompt w)) = messages w"
  unfolding respond_def
  by (intro keeps_and_then keeps_extract keeps_location_given)
     (simp add: keeps_and_then keeps_load_data keeps_subscript keeps_get_recommendations
        keeps_simple)

text \<open>
  A submitted chat input appends the user's message and then at most one assistant
  message: exactly one when the turn ends normally, none when it ends in an exception.
\<close>

lemma chat_turn_appends:
  assumes "messages w = Some ms"
  shows "(fst (chat_turn env prompt w) = Inr () \<and>
          (\<exists>r. messages (snd (chat_turn env prompt w)) =
                 Some (ms @ [\<lparr>role = User, content = prompt\<rparr>, \<lparr>role = Assistant, content = r\<rparr>])))
       \<or> ((\<exists>e. fst (chat_turn env prompt w) = Inl e) \<and>
          messages (snd (chat_turn env prompt w)) = Some (ms @ [\<lparr>role = User, content = prompt\<rparr>]))"
proof -
  define w1 where "w1 = w\<lparr>messages := Some (ms @ [\<lparr>role = User, content = prompt\<rparr>]),
                          trace := trace w @ [UiChat User prompt]\<rparr>"
  obtain r w2 where r: "respond env prompt w1 = (r, w2)" by (cases "respond env prompt w1")
  with keeps_respond [of env prompt w1]
  have w2: "messages w2 = Some (ms @ [\<lparr>role = User, content = prompt\<rparr>])"
    by (simp add: w1_def)
  have ct: "chat_turn env prompt w =
      (case r of Inl e \<Rightarrow> (Inl e, w2)
       | Inr msg \<Rightarrow> (Inr (), w2\<lparr>messages := Some (ms @ [\<lparr>role = User, content = prompt\<rparr>,
                          \<lparr>role = Assistant, content = msg\<rparr>]),
                        trace := trace w2 @ [UiChat Assistant msg]\<rparr>))"
    using assms w2
    by (simp add: chat_turn_def append_message_def and_then_def emit_def
          w1_def [symmetric] r split: sum.splits)
  show ?thesis
    by (cases r) (simp_all add: ct w2)
qed

text \<open>
  A run of the script only appends to the history, which starts with the greeting;
  so does any sequence of runs.
\<close>

lemma script_run_appends:
  "\<exists>new. messages (snd (script_run env chat_input w)) =
      Some ((case messages w of None \<Rightarrow> [greeting] | Some ms \<Rightarrow> ms) @ new)"
proof -
  define ms where "ms = (case messages w of None \<Rightarrow> [greeting] | Some ms \<Rightarrow> ms)"
  define w1 where "w1 =
    (case messages w of
       None \<Rightarrow> w\<lparr>messages := Some [greeting],
                  trace := trace w @ map (\<lambda>m. UiChat (role m) (content m)) [greeting]\<rparr>
     | Some a \<Rightarrow> w\<lparr>trace := trace w @ map (\<lambda>m. UiChat (role m) (content m)) a\<rparr>)"
  have w1: "messages w1 = Some ms" by (simp add: w1_def ms_def split: option.splits)
  have sr: "script_run env chat_input w =
      (case chat_input of None \<Rightarrow> (Inr (), w1)
       | Some prompt \<Rightarrow> if prompt \<noteq> [] then chat_turn env prompt w1 else (Inr (), w1))"
  proof (cases "messages w")
    case None
    then show ?thesis
      by (simp add: script_run_def init_history_def display_history_def and_then_def ret_def
            w1_def ms_def split: option.splits)
  next
    case (Some a)
    then show ?thesis
      by (simp add: script_run_def init_history_def display_history_def and_then_def ret_def
            w1_def ms_def split: option.splits)
  qed
  show ?thesis
  proof (cases chat_input)
    case None
    with sr w1 show ?thesis by (simp add: ms_def [symmetric])
  next
    case (Some prompt)
    show ?thesis
    proof (cases "prompt = []")
      case True
      with Some sr w1 show ?thesis by (simp add: ms_def [symmetric])
    next
      case False
      with Some sr have "script_run env chat_input w = chat_turn env prompt w1" by simp
      with chat_turn_appends [OF w1, of env prompt] show ?thesis
        unfolding ms_def [symmetric] by auto
    qed
  qed
qed

lemma session_appends:
  "\<exists>new. messages (session runs (snd (script_run env chat_input w))) =
      Some ((case messages w of None \<Rightarrow> [greeting] | Some ms \<Rightarrow> ms) @ new)"
proof (induction runs arbitrary: env chat_input w)
  case Nil
  then show ?case using script_run_appends [of env chat_input w] by simp
next
  case (Cons a runs)
  obtain env' input' where a: "a = (env', input')" by (cases a)
  obtain new where n: "messages (snd (script_run env chat_input w)) =
      Some ((case messages w of None \<Rightarrow> [greeting] | Some ms \<Rightarrow> ms) @ new)"
    using script_run_appends [of env chat_input w] by blast
  obtain new' where "messages (session runs (snd (script_run env' input'
        (snd (script_run env chat_input w))))) =
      Some (((case messages w of None \<Rightarrow> [greeting] | Some ms \<Rightarrow> ms) @ new) @ new')"
    using Cons.IH [of env' input' "snd (script_run env chat_input w)"] n by auto
  then show ?case by (auto simp: a)
qed

section \<open>Requests and answers of a turn\<close>

text \<open>
  No retry: whatever happens during a turn, the model receives the extraction prompt once
  and after it at most one more request.
\<close>

lemma quiet_and_then:
  assumes "\<And>w. model_requests (trace (snd (m w))) = model_requests (trace w)"
    and "\<And>x w. \<exists>rs. model_requests (trace (snd (f x w))) = model_requests (trace w) @ rs
                   \<and> length rs \<le> 1"
  shows "\<exists>rs. model_requests (trace (snd (and_then m f w))) = model_requests (trace w) @ rs
              \<and> length rs \<le> 1"
proof (cases "m w")
  case (Pair r w')
  with assms(1) [of w] have w': "model_requests (trace w') = model_requests (trace w)" by simp
  show ?thesis
  proof (cases r)
    case (Inl e)
    with Pair w' show ?thesis by (simp add: and_then_def)
  next
    case (Inr x)
    with Pair w' assms(2) [of x w'] show ?thesis by (simp add: and_then_def)
  qed
qed

lemma extract_user_info_returns: "\<exists>u. fst (extract_user_info env msg w) = Inr u"
  by (simp add: extract_user_info_cases split: sum.splits)

lemma quiet_load_data: "model_requests (trace (snd (load_data env w))) = model_requests (trace w)"
  by (simp add: load_data_cases model_requests_append split: sum.splits option.splits)

lemma quiet_subscript: "model_requests (trace (snd (subscript d k w))) = model_requests (trace w)"
  by (simp add: subscript_def monad_defs split: json.splits option.splits)

lemma quiet_location_given:
  "model_requests (trace (snd (location_given u w))) = model_requests (trace w)"
  by (simp add: location_given_def dict_get_def monad_defs split: json.splits option.splits)

lemma get_recommendations_requests:
  "\<exists>rs. model_requests (trace (snd (get_recommendations env l b c df t w)))
           = model_requests (trace w) @ rs \<and> length rs \<le> 1"
  by (simp add: get_recommendations_def py_lower_def model_generate_def monad_defs Let_def
        model_requests_append split: json.splits sum.splits)

lemma after_gate_requests:
  "\<exists>rs. model_requests (trace (snd (
       and_then (load_data env) (\<lambda>food_data.
       and_then (subscript u ''location'') (\<lambda>location.
       and_then (subscript u ''budget'') (\<lambda>budget.
       and_then (subscript u ''craving'') (\<lambda>craving.
       get_recommendations env location budget craving food_data t)))) w)))
     = model_requests (trace w) @ rs \<and> length rs \<le> 1"
  by (rule quiet_and_then [OF quiet_load_data],
      rule quiet_and_then [OF quiet_subscript],
      rule quiet_and_then [OF quiet_subscript],
      rule quiet_and_then [OF quiet_subscript],
      rule get_recommendations_requests)

lemma respond_requests:
  "\<exists>rs. model_requests (trace (snd (respond env prompt w)))
           = model_requests (trace w) @ extract_prompt prompt # rs \<and> length rs \<le> 1"
proof -
  obtain u where "fst (extract_user_info env prompt w) = Inr u"
    using extract_user_info_returns by blast
  then obtain w2 where e: "extract_user_info env prompt w = (Inr u, w2)"
    by (cases "extract_user_info env prompt w") simp
  have w2: "model_requests (trace w2) = model_requests (trace w) @ [extract_prompt prompt]"
    using extract_user_info_effect(4) [of env prompt w] e by simp
  obtain g w3 where g: "location_given u w2 = (g, w3)" by (cases "location_given u w2")
  with quiet_location_given [of u w2]
  have w3: "model_requests (trace w3) = model_requests (trace w2)" by simp
  show ?thesis
  proof (cases g)
    case (Inl x)
    with e g w2 w3 show ?thesis by (simp add: respond_def and_then_def)
  next
    case (Inr usable)
    show ?thesis
    proof (cases usable)
      case False
      with Inr e g w2 w3 show ?thesis by (simp add: respond_def and_then_def ret_def)
    next
      case True
      obtain rs where rs: "model_requests (trace (snd (
         and_then (load_data env) (\<lambda>food_data.
         and_then (subscript u ''location'') (\<lambda>location.
         and_then (subscript u ''budget'') (\<lambda>budget.
         and_then (subscript u ''craving'') (\<lambda>craving.
         get_recommendations env location budget craving food_data
           (current_time_str (now_ist env)))))) w3)))
        = model_requests (trace w3) @ rs" and len: "length rs \<le> 1"
        using after_gate_requests [of env u "current_time_str (now_ist env)" w3] by blast
      have "respond env prompt w =
         and_then (load_data env) (\<lambda>food_data.
         and_then (subscript u ''location'') (\<lambda>location.
         and_then (subscript u ''budget'') (\<lambda>budget.
         and_then (subscript u ''craving'') (\<lambda>craving.
         get_recommendations env location budget craving food_data
           (current_time_str (now_ist env)))))) w3"
        unfolding respond_def
        by (subst and_then_def, simp only: e prod.case sum.case,
            subst and_then_def, simp only: g Inr True prod.case sum.case if_True)
      with rs len w2 w3 show ?thesis by simp
    qed
  qed
qed

text \<open>
  The turns that are answered: besides the ones that stop at the test of line 167
  (\<open>chat_turn_short_circuit\<close>), every turn for which the extractor returns a
  dictionary with a truthy location, a budget and a craving that is a string, and for
  which the table can be serialised. This covers the empty table and a failing
  recommendation request, since \<open>get_recommendations\<close> turns both into a message.
\<close>

lemma load_data_returns: "\<exists>df. fst (load_data env w) = Inr df"
  by (simp add: load_data_cases split: option.splits sum.splits)


lemma get_recommendations_returns:
  assumes "df_empty df \<or> (\<exists>j. to_json env df = Inr j)"
  shows "\<exists>r. fst (get_recommendations env l b (JStr c) df t w) = Inr r"
proof (cases "df_empty df")
  case True
  then show ?thesis by (simp add: get_recommendations_def monad_defs)
next
  case False
  with assms obtain j where j: "to_json env df = Inr j" by blast
  with False show ?thesis
    by (simp add: get_recommendations_def py_lower_def model_generate_def monad_defs Let_def
          split: sum.splits)
qed

lemma respond_answers:
  assumes e2: "extract_user_info env prompt w1 = (Inr (JObj kvs), w2)"
    and loc: "map_of kvs ''location'' = Some l" "truthy l"
    and bud: "map_of kvs ''budget'' = Some b"
    and cra: "map_of kvs ''craving'' = Some (JStr c)"
    and tj: "\<And>df. \<exists>j. to_json env df = Inr j"
  shows "\<exists>r. fst (respond env prompt w1) = Inr r"
proof -
  from loc have ne: "kvs \<noteq> []" by auto
  have lg: "location_given (JObj kvs) w2 = (Inr True, w2)"
    using loc ne by (simp add: location_given_def dict_get_def monad_defs)
  obtain df where "fst (load_data env w2) = Inr df"
    using load_data_returns by blast
  then obtain w3 where ld: "load_data env w2 = (Inr df, w3)"
    by (cases "load_data env w2") simp
  obtain r where gr: "fst (get_recommendations env l b (JStr c) df
      (current_time_str (now_ist env)) w3) = Inr r"
    using get_recommendations_returns [of df env l b c "current_time_str (now_ist env)" w3]
      tj [of df] by blast
  have s1: "subscript (JObj kvs) ''location'' = ret l"
    and s2: "subscript (JObj kvs) ''budget'' = ret b"
    and s3: "subscript (JObj kvs) ''craving'' = ret (JStr c)"
    using loc bud cra by (simp_all add: subscript_def)
  have "respond env prompt w1 =
      get_recommendations env l b (JStr c) df (current_time_str (now_ist env)) w3"
    unfolding respond_def
    by (subst and_then_def, simp only: e2 prod.case sum.case,
        subst and_then_def, simp only: lg prod.case sum.case if_True,
        subst and_then_def, simp only: ld prod.case sum.case,
        simp add: s1 s2 s3 and_then_def ret_def)
  with gr show ?thesis by simp
qed

lemma chat_turn_answers:
  assumes ms: "messages w = Some ms"
    and ex: "fst (extract_user_info env prompt w) = Inr (JObj kvs)"
    and loc: "map_of kvs ''location'' = Some l" "truthy l"
    and bud: "map_of kvs ''budget'' = Some b"
    and cra: "map_of kvs ''craving'' = Some (JStr c)"
    and tj: "\<And>df. \<exists>j. to_json env df = Inr j"
  shows "fst (chat_turn env prompt w) = Inr ()"
proof -
  define w1 where "w1 = w\<lparr>messages := Some (ms @ [\<lparr>role = User, content = prompt\<rparr>]),
                          trace := trace w @ [UiChat User prompt]\<rparr>"
  obtain w2 where e2: "extract_user_info env prompt w1 = (Inr (JObj kvs), w2)"
    using ex extract_user_info_fst [of env prompt w1 w]
    by (cases "extract_user_info env prompt w1") simp
  obtain r where "fst (respond env prompt w1) = Inr r"
    using respond_answers [OF e2 loc bud cra tj] by blast
  then obtain w4 where r4: "respond env prompt w1 = (Inr r, w4)"
    by (cases "respond env prompt w1") simp
  with keeps_respond [of env prompt w1]
  have w4: "messages w4 = Some (ms @ [\<lparr>role = User, content = prompt\<rparr>])"
    by (simp add: w1_def)
  show ?thesis
    using ms w4
    by (simp add: chat_turn_def append_message_def and_then_def emit_def
          w1_def [symmetric] r4)
qed

section \<open>Turns that end in an exception\<close>

text \<open>
  The test of line 167 looks at the location only. Behind it, lines 175 to 177 read
  \<open>user_info["location"]\<close>, \<open>user_info["budget"]\<close> and \<open>user_info["craving"]\<close> by
  subscript, and line 103 calls \<open>craving.lower()\<close>; none of this is inside a \<open>try\<close>.
\<close>

lemma clean_fenced_no_budget:
  "clean_reply (fenced ''{\"location\": \"CST\"}'') = ''{\"location\": \"CST\"}''"
  by (rule clean_reply_fenced_lines) (simp_all add: space_defs)

lemma clean_fenced_list_craving:
  "clean_reply (fenced ''{\"location\": \"CST\", \"budget\": 100, \"craving\": [\"pizza\", \"fries\"]}'')
     = ''{\"location\": \"CST\", \"budget\": 100, \"craving\": [\"pizza\", \"fries\"]}''"
  by (rule clean_reply_fenced_lines) (simp_all add: space_defs)

lemmas script_defs = script_run_def init_history_def display_history_def chat_turn_def
  respond_def append_message_def location_given_def dict_get_def subscript_def
  get_recommendations_def py_lower_def model_generate_def

text \<open>
  C6. The claim: whatever fails, a turn performs no retry and always ends with a
  message shown to the user, never with an uncaught exception. The code does not
  do this. In a fresh session the user writes \<open>I am near CST\<close> and the model answers
  the extraction prompt with the JSON object \<open>{"location": "CST"}\<close>. The object passes
  the test of line 167, the table is loaded, and \<open>user_info["budget"]\<close> raises
  \<open>KeyError('budget')\<close>, which nothing catches: the run ends with this exception, the
  trace shows the greeting and the user's message and no assistant message after them,
  and the composer is never entered. Likewise a reply whose craving is a JSON list
  reaches \<open>craving.lower()\<close> and the run ends with an \<open>AttributeError\<close>, and so
  does the run for the reply \<open>NaN\<close>, which \<open>json.loads\<close> reads as a float: the
  float is truthy and has no \<open>get\<close>. (The rest of the claim holds: no request is
  repeated, \<open>respond_requests\<close>, and the turns of \<open>chat_turn_short_circuit\<close> and
  \<open>chat_turn_answers\<close> end with a message.)
\<close>

theorem unguarded_intent_turn_raises:
  "script_run (reply_env ''{\"location\": \"CST\"}'' (JObj [(''location'', JStr ''CST'')]))
      (Some ''I am near CST'') fresh
   = (Inl (KeyError ''budget''),
      \<lparr>messages = Some [greeting, \<lparr>role = User, content = ''I am near CST''\<rparr>],
       cache = Some demo_table,
       trace = [UiChat Assistant (content greeting), UiChat User ''I am near CST'',
                Invoke ''extract_user_info'', ModelRequest (extract_prompt ''I am near CST''),
                Invoke ''load_data'', SheetRead ''https://sheet.example/food.csv'']\<rparr>)
   \<and> fst (script_run
        (reply_env ''{\"location\": \"CST\", \"budget\": 100, \"craving\": [\"pizza\", \"fries\"]}''
           (JObj [(''location'', JStr ''CST''), (''budget'', JInt 100),
                  (''craving'', JArr [JStr ''pizza'', JStr ''fries''])]))
        (Some ''I am near CST and want pizza and fries'') fresh)
     = Inl (AttributeError (quote @ ''list'' @ quote @ '' object has no attribute '' @ quote
              @ ''lower'' @ quote))
   \<and> fst (script_run (reply_env ''NaN'' (JFloat NaN)) (Some ''Surprise me'') fresh)
     = Inl (AttributeError (quote @ ''float'' @ quote @ '' object has no attribute '' @ quote
              @ ''get'' @ quote))"
  by (simp add: script_defs monad_defs extract_user_info_cases load_data_cases reply_env_def
        scripted_env_def extract_prompt_prefix clean_fenced_no_budget clean_fenced_list_craving
        clean_fenced_nan fresh_def greeting_def df_empty_def demo_table_def no_attribute_def)

text \<open>
  C8. The claim: the history is append-only, starts with the greeting, and every turn
  appends exactly one user message followed by exactly one assistant message. The
  history is append-only and starts with the greeting (\<open>session_appends\<close>), but a turn
  that ends in an exception has appended the user's message only. After the turn
  \<open>I am near CST\<close> answered by the model with \<open>{"location": "CST"}\<close>, and one more run
  of the script without input, the history is the greeting followed by the user's
  message: no assistant message follows it.
\<close>

theorem crashed_turn_leaves_user_message:
  "messages (session
      [(reply_env ''{\"location\": \"CST\"}'' (JObj [(''location'', JStr ''CST'')]),
        Some ''I am near CST''),
       (reply_env ''{\"location\": \"CST\"}'' (JObj [(''location'', JStr ''CST'')]), None)]
      fresh)
   = Some [greeting, \<lparr>role = User, content = ''I am near CST''\<rparr>]"
  by (simp add: script_defs monad_defs extract_user_info_cases load_data_cases reply_env_def
        scripted_env_def extract_prompt_prefix clean_fenced_no_budget
        fresh_def df_empty_def demo_table_def)

end
